theory Spec2Isabelle
  imports Main "HOL-Library.Sublist"
begin

section \<open>Text\<close>

text \<open>
  A Python \<open>str\<close> is the list of its Unicode code points. \<open>u\<close> reads an ASCII
  literal of this file as such a list.
\<close>

type_synonym ustring = "nat list"

definition u :: "string \<Rightarrow> ustring" where
  "u s = map of_char s"

text \<open>
  The symbols of the diagnostic lines: cross mark, rightwards arrow, bar chart, wrench,
  light bulb and clipboard. They are the only characters outside ASCII that the program
  itself writes, and none of them has a case.
\<close>

definition cross_mark :: ustring where "cross_mark = [0x274C]"
definition arrow :: ustring where "arrow = [0x2192]"
definition bar_chart :: ustring where "bar_chart = [0x1F4CA]"
definition wrench :: ustring where "wrench = [0x1F527]"
definition light_bulb :: ustring where "light_bulb = [0x1F4A1]"
definition clipboard :: ustring where "clipboard = [0x1F4CB]"

definition symbol :: "nat \<Rightarrow> bool" where
  "symbol c = (c = 0x274C \<or> c = 0x2192 \<or> c = 0x1F4CA \<or> c = 0x1F527 \<or> c = 0x1F4A1
     \<or> c = 0x1F4CB)"

text \<open>
  \<open>str.lower()\<close>. On ASCII it maps \<open>A\<close>..\<open>Z\<close> to \<open>a\<close>..\<open>z\<close> and nothing else;
  the symbols above stay as they are. What it does to any other character is the case
  table of the Python runtime, which is not part of this repository: it is the
  parameter \<open>tbl\<close>, which gives, for a string and a position in it, the characters
  that replace the character at that position (one character may become several, and
  the replacement may depend on the neighbours, as for the Greek capital sigma).
\<close>

type_synonym case_table = "ustring \<Rightarrow> nat \<Rightarrow> ustring"

definition ascii_lower :: "nat \<Rightarrow> nat" where
  "ascii_lower c = (if 65 \<le> c \<and> c \<le> 90 then c + 32 else c)"

fun lower_from :: "case_table \<Rightarrow> ustring \<Rightarrow> nat \<Rightarrow> ustring \<Rightarrow> ustring" where
  "lower_from tbl s i [] = []"
| "lower_from tbl s i (c # cs) =
     (if c < 128 then [ascii_lower c] else if symbol c then [c] else tbl s i)
     @ lower_from tbl s (Suc i) cs"

definition lower :: "case_table \<Rightarrow> ustring \<Rightarrow> ustring" where
  "lower tbl s = lower_from tbl s 0 s"

text \<open>\<open>sub in s\<close> of Python: \<open>sub\<close> occurs in \<open>s\<close> as a contiguous run.\<close>

fun str_in :: "ustring \<Rightarrow> ustring \<Rightarrow> bool" where
  "str_in sub [] = (sub = [])"
| "str_in sub (c # s) = (prefix sub (c # s) \<or> str_in sub s)"

text \<open>
  The characters \<open>str.strip()\<close> removes, which are those of \<open>str.isspace()\<close>:
  U+0009..U+000D, U+001C..U+0020, U+0085, U+00A0, U+1680, U+2000..U+200A, U+2028,
  U+2029, U+202F, U+205F and U+3000.
\<close>

definition is_space :: "nat \<Rightarrow> bool" where
  "is_space c =
     ((9 \<le> c \<and> c \<le> 13) \<or> (28 \<le> c \<and> c \<le> 32) \<or> c = 0x85 \<or> c = 0xA0 \<or> c = 0x1680
      \<or> (0x2000 \<le> c \<and> c \<le> 0x200A) \<or> c = 0x2028 \<or> c = 0x2029 \<or> c = 0x202F
      \<or> c = 0x205F \<or> c = 0x3000)"

definition strip :: "ustring \<Rightarrow> ustring" where
  "strip s = rev (dropWhile is_space (rev (dropWhile is_space s)))"

text \<open>\<open>"\n".join(lines)\<close>; the line feed is code point 10.\<close>

fun join_nl :: "ustring list \<Rightarrow> ustring" where
  "join_nl [] = []"
| "join_nl [l] = l"
| "join_nl (l # l' # ls) = l @ [10] @ join_nl (l' # ls)"

section \<open>Outcomes of calls into the libraries\<close>

text \<open>
  A call into pdfplumber, pdf2image, pytesseract or the generative-language client
  either returns a value or raises an exception; \<open>Raises e\<close> carries \<open>str(e)\<close>.
\<close>

datatype 'a outcome = Returns 'a | Raises ustring

section \<open>Model selection\<close>

definition PREFERRED_MODELS :: "ustring list" where
  "PREFERRED_MODELS =
     [u ''gemini-2.5-pro'', u ''gemini-pro'', u ''gemini-2.5-flash'', u ''gemini-1.5'',
      u ''gemini-1.5-flash'']"

text \<open>
  An entry of the model listing is a dict or an object. It has a name (\<open>None\<close> when
  the key or attribute \<open>name\<close> is missing or holds \<open>None\<close>) and, under further keys
  or attribute names, lists whose items are carried as their \<open>str(x)\<close>. The code
  looks up \<open>supportedMethods\<close> and \<open>methods\<close>; a key or attribute that is missing
  reads as \<open>None\<close>, which counts like the empty list. A value that is itself a string
  is iterated character by character: it is the list of its one-character strings.
\<close>

datatype entry =
    DictEntry "ustring option" "(string \<times> ustring list) list"
  | ObjEntry "ustring option" "(string \<times> ustring list) list"

text \<open>
  \<open>genai.list_models()\<close> raises, or returns an iterable that yields entries and then
  ends, normally (\<open>None\<close>) or with an exception of its own (\<open>Some e\<close>); the \<open>try\<close>
  covers both the call and the loop.
\<close>

datatype listing = ListingRaises ustring | Listed "entry list" "ustring option"

text \<open>\<open>m.get(key)\<close> and \<open>getattr(m, key, None)\<close> on the lists of an entry.\<close>

definition get_list :: "(string \<times> ustring list) list \<Rightarrow> string \<Rightarrow> ustring list" where
  "get_list attrs key = (case map_of attrs key of None \<Rightarrow> [] | Some l \<Rightarrow> l)"

text \<open>Python's \<open>a or b or []\<close>.\<close>

definition or_methods :: "ustring list \<Rightarrow> ustring list \<Rightarrow> ustring list" where
  "or_methods a b = (if a \<noteq> [] then a else if b \<noteq> [] then b else [])"

fun entry_name :: "entry \<Rightarrow> ustring option" where
  "entry_name (DictEntry n attrs) = n"
| "entry_name (ObjEntry n attrs) = n"

fun entry_methods :: "entry \<Rightarrow> ustring list" where
  "entry_methods (DictEntry n attrs) =
     or_methods (get_list attrs ''supportedMethods'') (get_list attrs ''methods'')"
| "entry_methods (ObjEntry n attrs) =
     or_methods (get_list attrs ''supportedMethods'') (get_list attrs ''methods'')"

text \<open>Truthiness of a name: neither \<open>None\<close> nor the empty string.\<close>

fun truthy :: "ustring option \<Rightarrow> bool" where
  "truthy None = False"
| "truthy (Some s) = (s \<noteq> [])"

text \<open>\<open>any("generate" in str(x).lower() for x in methods)\<close>.\<close>

fun any_generate :: "case_table \<Rightarrow> ustring list \<Rightarrow> bool" where
  "any_generate tbl [] = False"
| "any_generate tbl (x # xs) = (str_in (u ''generate'') (lower tbl x) \<or> any_generate tbl xs)"

text \<open>The \<open>for m in models\<close> loop: \<open>Some name\<close> is its \<open>return name\<close>, \<open>None\<close> is
  leaving the loop without returning.\<close>

fun scan_models :: "case_table \<Rightarrow> entry list \<Rightarrow> ustring option" where
  "scan_models tbl [] = None"
| "scan_models tbl (m # ms) =
     (if truthy (entry_name m) \<and> entry_methods m \<noteq> [] \<and> any_generate tbl (entry_methods m)
      then entry_name m
      else scan_models tbl ms)"

text \<open>\<open>pref = preferred_list or PREFERRED_MODELS\<close>.\<close>

fun pref_of :: "ustring list option \<Rightarrow> ustring list" where
  "pref_of None = PREFERRED_MODELS"
| "pref_of (Some []) = PREFERRED_MODELS"
| "pref_of (Some (n # ns)) = n # ns"

text \<open>The fallback loop returns at its first iteration; \<open>None\<close> is the final
  \<open>return None\<close>.\<close>

fun first_pref :: "ustring list \<Rightarrow> ustring option" where
  "first_pref [] = None"
| "first_pref (n # ns) = Some n"

fun listed_match :: "case_table \<Rightarrow> listing \<Rightarrow> ustring option" where
  "listed_match tbl (ListingRaises e) = None"
| "listed_match tbl (Listed ms ex) = scan_models tbl ms"

definition select_supported_model ::
  "case_table \<Rightarrow> ustring list option \<Rightarrow> listing \<Rightarrow> ustring option" where
  "select_supported_model tbl preferred_list models =
     (let pref = pref_of preferred_list in
      case listed_match tbl models of
        Some name \<Rightarrow> Some name
      | None \<Rightarrow> first_pref pref)"

section \<open>Text extraction\<close>

text \<open>
  A page of the opened PDF is what \<open>page.extract_text()\<close> does on it: it returns the
  text layer (\<open>None\<close> when the page has none) or raises. A rendered image is what
  \<open>pytesseract.image_to_string(image)\<close> does on it.
\<close>

type_synonym page = "ustring option outcome"
type_synonym image = "ustring outcome"

text \<open>
  The file at \<open>pdf_path\<close>: what \<open>pdfplumber.open\<close> gives (the pages, or an
  exception) and what \<open>convert_from_path\<close> gives (the images, or an exception).
\<close>

record pdf_file =
  pdf_pages :: "page list outcome"
  pdf_images :: "image list outcome"

text \<open>What the function does besides returning: library calls and printed lines.\<close>

datatype event =
    OpenPdf
  | ExtractText page
  | Print ustring
  | ConvertFromPath
  | ImageToString image

text \<open>
  The two \<open>for\<close> loops. Each returns the exception that ended it (\<open>None\<close> when the
  loop ran to its end), the text accumulated so far, and the events so far.
\<close>

fun direct_pages :: "page list \<Rightarrow> ustring \<Rightarrow> event list \<Rightarrow> ustring option \<times> ustring \<times> event list" where
  "direct_pages [] text tr = (None, text, tr)"
| "direct_pages (Raises e # ps) text tr = (Some e, text, tr @ [ExtractText (Raises e)])"
| "direct_pages (Returns page_text # ps) text tr =
     direct_pages ps
       (if truthy page_text then text @ the page_text else text)
       (tr @ [ExtractText (Returns page_text)])"

fun ocr_images :: "image list \<Rightarrow> ustring \<Rightarrow> event list \<Rightarrow> ustring option \<times> ustring \<times> event list" where
  "ocr_images [] text tr = (None, text, tr)"
| "ocr_images (Raises e # imgs) text tr = (Some e, text, tr @ [ImageToString (Raises e)])"
| "ocr_images (Returns page_text # imgs) text tr =
     ocr_images imgs (text @ page_text @ [10]) (tr @ [ImageToString (Returns page_text)])"

text \<open>The second \<open>try\<close> block and the final \<open>return text.strip()\<close>.\<close>

definition ocr_fallback :: "pdf_file \<Rightarrow> ustring \<Rightarrow> event list \<Rightarrow> ustring \<times> event list" where
  "ocr_fallback pdf text tr =
     (let tr1 = tr @ [Print (u ''Falling back to OCR for image-based PDF.''), ConvertFromPath] in
      case (case pdf_images pdf of
              Raises e \<Rightarrow> (Some e, text, tr1)
            | Returns images \<Rightarrow> ocr_images images text tr1) of
        (None, text', tr2) \<Rightarrow> (strip text', tr2)
      | (Some e, text', tr2) \<Rightarrow> (strip text', tr2 @ [Print (u ''OCR failed: '' @ e)]))"

text \<open>
  The function returns a string on every path: both \<open>try\<close> blocks catch
  \<open>Exception\<close>, and nothing outside them raises.
\<close>

definition extract_text_from_pdf :: "pdf_file \<Rightarrow> ustring \<times> event list" where
  "extract_text_from_pdf pdf =
     (case (case pdf_pages pdf of
              Raises e \<Rightarrow> (Some e, [], [OpenPdf])
            | Returns pages \<Rightarrow> direct_pages pages [] [OpenPdf]) of
        (None, text, tr) \<Rightarrow>
          if strip text \<noteq> [] then (strip text, tr) else ocr_fallback pdf text tr
      | (Some e, text, tr) \<Rightarrow>
          ocr_fallback pdf text (tr @ [Print (u ''Direct text extraction failed: '' @ e)]))"

section \<open>Analysis\<close>

text \<open>
  The response object of \<open>generate_content\<close>, as the last statement reads it.
  \<open>str(response)\<close> returns or raises. Reading the attribute \<open>text\<close> finds none
  (\<open>AttributeError\<close>, which \<open>getattr\<close> with a default absorbs), finds a value, which
  is a string or \<open>None\<close>, or raises another exception, which \<open>getattr\<close> lets through.
\<close>

datatype text_attr = NoText | TextIs "ustring option" | TextRaises ustring

record response =
  resp_str :: "ustring outcome"
  resp_text :: text_attr

text \<open>
  The generative-language client as the analyzer meets it: the outcome of listing the
  models, of constructing \<open>GenerativeModel(name)\<close>, and of
  \<open>model.generate_content(prompt)\<close> for the model of that name.
\<close>

record remote =
  list_models :: listing
  GenerativeModel :: "ustring \<Rightarrow> unit outcome"
  generate_content :: "ustring \<Rightarrow> ustring \<Rightarrow> response outcome"

text \<open>The calls into the client, in the order they are made.\<close>

datatype call = ListModels | NewModel ustring | GenerateContent ustring ustring

text \<open>
  What \<open>analyze_resume\<close> does at its end: it returns the dict \<open>{"error": ...}\<close>,
  returns the analysis, raises \<open>RuntimeError\<close> with a message, or lets an exception
  of the last statement through.
\<close>

datatype result =
    ReturnsError ustring
  | ReturnsAnalysis ustring
  | RaisesRuntimeError ustring
  | RaisesOther ustring

subsection \<open>The prompt\<close>

text \<open>
  The two f-strings, cut at their fixed parts: the lines before \<open>Resume:\<close>, the
  lines before \<open>Job Description:\<close>, and the lines after the job description.
\<close>

definition reviewer_instructions :: ustring where
  "reviewer_instructions =
     u ''\<newline>'' @
      u ''    You are an experienced HR with Technical Experience in the field of any one '' @
      u ''job role from Data Science, Data Analyst, DevOPS, Machine Learning Engineer, Pro'' @
      u ''mpt Engineer, AI Engineer, Full Stack Web Development, Big Data Engineering, Mar'' @
      u ''keting Analyst, Human Resource Manager, Software Developer your task is to revie'' @
      u ''w the provided resume.\<newline>'' @
      u ''    Please share your professional evaluation on whether the candidate's profile'' @
      u '' aligns with the role.ALso mention Skills he already have and siggest some skill'' @
      u ''s to imorve his resume , alos suggest some course he might take to improve the s'' @
      u ''kills.Highlight the strengths and weaknesses.\<newline>'' @
      u ''\<newline>''"

definition base_prompt :: "ustring \<Rightarrow> ustring" where
  "base_prompt resume_text =
     reviewer_instructions @
      u ''    Resume:\<newline>'' @
      u ''    '' @ resume_text @ u ''\<newline>'' @
      u ''    ''"

definition comparison_request :: ustring where
  "comparison_request =
     u ''\<newline>'' @
      u ''        Additionally, compare this resume to the following job description:\<newline>'' @
      u ''        \<newline>''"

definition comparison_closing :: ustring where
  "comparison_closing =
     u ''\<newline>'' @
      u ''        \<newline>'' @
      u ''        Highlight the strengths and weaknesses of the applicant in relation to the '' @
      u ''specified job requirements.\<newline>'' @
      u ''        ''"

definition job_block :: "ustring \<Rightarrow> ustring" where
  "job_block job_description =
     comparison_request @
      u ''        Job Description:\<newline>'' @
      u ''        '' @ job_description @ comparison_closing"

text \<open>\<open>if job_description:\<close> is false for \<open>None\<close> and for the empty string.\<close>

fun build_prompt :: "ustring \<Rightarrow> ustring option \<Rightarrow> ustring" where
  "build_prompt resume_text None = base_prompt resume_text"
| "build_prompt resume_text (Some jd) =
     (if jd = [] then base_prompt resume_text else base_prompt resume_text @ job_block jd)"

subsection \<open>The diagnostic of a failed generation\<close>

definition invalid_key_details :: "ustring list" where
  "invalid_key_details =
     [cross_mark @ u '' API key is invalid or incorrect'',
      u ''   '' @ arrow @ u '' Check that your .env file contains: GOOGLE_API_KEY=your_key (no quotes)'',
      u ''   '' @ arrow @ u '' Verify the key is correct at: https://makersuite.google.com/app/apikey'']"

definition permission_details :: "ustring list" where
  "permission_details =
     [cross_mark @ u '' Permission denied - API key may be restricted'',
      u ''   '' @ arrow @ u '' Remove API key restrictions temporarily (APIs & Services -> Credentials)'',
      u ''   '' @ arrow @ u '' Or add 'Generative Language API' to allowed APIs for this key'']"

definition quota_details :: "ustring list" where
  "quota_details =
     [cross_mark @ u '' Quota Exceeded - API Usage Limit Reached'',
      [],
      bar_chart @ u '' **What this means:**'',
      u ''   You've reached your API usage limit for Google Generative AI.'',
      [],
      wrench @ u '' **How to fix:**'',
      [],
      u ''   **Option 1: Wait and Retry (Free Tier)**'',
      u ''   '' @ arrow @ u '' Free tier has daily/minute limits that reset over time'',
      u ''   '' @ arrow @ u '' Wait a few minutes or hours and try again'',
      u ''   '' @ arrow @ u '' Check quota limits: https://console.cloud.google.com/apis/api/generativelanguage.googleapis.com/quotas'',
      [],
      u ''   **Option 2: Enable Billing (Recommended)**'',
      u ''   '' @ arrow @ u '' Go to: https://console.cloud.google.com/billing'',
      u ''   '' @ arrow @ u '' Link a billing account to your project'',
      u ''   '' @ arrow @ u '' This increases your quota limits significantly'',
      [],
      u ''   **Option 3: Request Quota Increase**'',
      u ''   '' @ arrow @ u '' Go to: https://console.cloud.google.com/apis/api/generativelanguage.googleapis.com/quotas'',
      u ''   '' @ arrow @ u '' Select your project and request a quota increase'',
      u ''   '' @ arrow @ u '' This may require billing to be enabled'',
      [],
      u ''   **Option 4: Use a Different API Key**'',
      u ''   '' @ arrow @ u '' Create a new project with a new API key'',
      u ''   '' @ arrow @ u '' Get new key: https://makersuite.google.com/app/apikey'',
      [],
      light_bulb @ u '' **Tip:** Check your current usage at:'',
      u ''   https://console.cloud.google.com/apis/api/generativelanguage.googleapis.com/metrics'']"

definition billing_details :: "ustring list" where
  "billing_details =
     [cross_mark @ u '' Billing not enabled'',
      u ''   '' @ arrow @ u '' Enable billing in Google Cloud Console for your project'']"

definition quick_fix_checklist :: "ustring list" where
  "quick_fix_checklist =
     [[],
      clipboard @ u '' Quick Fix Checklist:'',
      u ''   1. Verify .env file exists in project root'',
      u ''   2. Check .env contains: GOOGLE_API_KEY=your_key (no quotes, no spaces)'',
      u ''   3. Enable 'Generative Language API' in Google Cloud Console'',
      u ''   4. Ensure billing is enabled for your Google Cloud project'',
      u ''   5. Remove API key restrictions temporarily while testing'',
      u ''   6. Restart the application after making changes'']"

text \<open>The \<open>if\<close>/\<open>elif\<close> chain over \<open>msg = str(e).lower()\<close>; \<open>e\<close> is \<open>str(e)\<close>.\<close>

definition classify :: "case_table \<Rightarrow> ustring \<Rightarrow> ustring list" where
  "classify tbl e =
     (let msg = lower tbl e in
      if str_in (u ''api key not valid'') msg \<or> str_in (u ''api_key_invalid'') msg
         \<or> str_in (u ''invalid api key'') msg
      then invalid_key_details
      else if str_in (u ''permission denied'') msg \<or> str_in (u ''403'') msg
      then permission_details
      else if str_in (u ''quota'') msg \<or> str_in (u ''429'') msg \<or> str_in (u ''rate limit'') msg
         \<or> str_in (u ''resource exhausted'') msg
      then quota_details
      else if str_in (u ''billing'') msg
      then billing_details
      else [cross_mark @ u '' Error: '' @ e])"

text \<open>
  \<open>if not error_details or ("api key" in error_details[0].lower() and "quota" not in
  error_details[0].lower())\<close>: the six checklist lines and the blank line before them
  are appended.
\<close>

fun add_checklist :: "case_table \<Rightarrow> ustring list \<Rightarrow> ustring list" where
  "add_checklist tbl [] = [] @ quick_fix_checklist"
| "add_checklist tbl (d # ds) =
     (if str_in (u ''api key'') (lower tbl d) \<and> \<not> str_in (u ''quota'') (lower tbl d)
      then (d # ds) @ quick_fix_checklist
      else d # ds)"

definition diagnostic :: "case_table \<Rightarrow> ustring \<Rightarrow> ustring" where
  "diagnostic tbl e = join_nl (add_checklist tbl (classify tbl e))"

subsection \<open>analyze\_resume\<close>

definition no_model_message :: ustring where
  "no_model_message =
     u ''No suitable model found. Please check your API key and ensure you have access '' @
     u ''to Gemini models. Available models can be listed at https://ai.google.dev/models''"

text \<open>
  \<open>getattr(response, "text", str(response)).strip()\<close>. The default \<open>str(response)\<close>
  is evaluated before \<open>getattr\<close> is called. \<open>None\<close> has no \<open>strip\<close>. Nothing
  catches an exception here.
\<close>

definition analysis_of :: "response \<Rightarrow> result" where
  "analysis_of r =
     (case resp_str r of
        Raises e \<Rightarrow> RaisesOther e
      | Returns fallback \<Rightarrow>
          (case resp_text r of
             NoText \<Rightarrow> ReturnsAnalysis (strip fallback)
           | TextIs (Some t) \<Rightarrow> ReturnsAnalysis (strip t)
           | TextIs None \<Rightarrow> RaisesOther
               ([39] @ u ''NoneType'' @ [39] @ u '' object has no attribute '' @ [39]
                @ u ''strip'' @ [39])
           | TextRaises e \<Rightarrow> RaisesOther e))"

text \<open>
  The function returns its result together with the calls it made into the client.
  \<open>select_supported_model()\<close> is called without argument and makes the one listing
  call.
\<close>

definition analyze_resume ::
  "case_table \<Rightarrow> remote \<Rightarrow> ustring \<Rightarrow> ustring option \<Rightarrow> result \<times> call list" where
  "analyze_resume tbl api resume_text job_description =
     (if resume_text = [] then (ReturnsError (u ''Resume text is required for analysis.''), [])
      else
        let selected_model_name = select_supported_model tbl None (list_models api) in
        if \<not> truthy selected_model_name
        then (RaisesRuntimeError no_model_message, [ListModels])
        else
          let name = the selected_model_name in
          case GenerativeModel api name of
            Raises e \<Rightarrow>
              (RaisesRuntimeError
                 (u ''Failed to initialize model '' @ [39] @ name @ [39] @ u '': '' @ e),
               [ListModels, NewModel name])
          | Returns ok \<Rightarrow>
              let prompt = build_prompt resume_text job_description in
              (case generate_content api name prompt of
                 Raises e \<Rightarrow> RaisesRuntimeError (diagnostic tbl e)
               | Returns r \<Rightarrow> analysis_of r,
               [ListModels, NewModel name, GenerateContent name prompt]))"

section \<open>Notions used in the statements\<close>

text \<open>
  The capability strings an entry of the listing carries, under whichever key or
  attribute name it carries them.
\<close>

fun entry_lists :: "entry \<Rightarrow> (string \<times> ustring list) list" where
  "entry_lists (DictEntry n attrs) = attrs"
| "entry_lists (ObjEntry n attrs) = attrs"

definition capabilities :: "entry \<Rightarrow> ustring list" where
  "capabilities m = concat (map snd (entry_lists m))"

text \<open>The text layer of a page; a page without one contributes nothing.\<close>

fun layer_text :: "ustring option \<Rightarrow> ustring" where
  "layer_text None = []"
| "layer_text (Some t) = t"

text \<open>
  Of a run of calls: the exception of the first call that raises, the calls made up to
  and including that one, and the text the two loops have gathered by then.
\<close>

fun failure :: "'a outcome list \<Rightarrow> ustring option" where
  "failure [] = None"
| "failure (Raises e # xs) = Some e"
| "failure (Returns x # xs) = failure xs"

fun attempted :: "'a outcome list \<Rightarrow> 'a outcome list" where
  "attempted [] = []"
| "attempted (Raises e # xs) = [Raises e]"
| "attempted (Returns x # xs) = Returns x # attempted xs"

fun direct_text :: "page list \<Rightarrow> ustring" where
  "direct_text [] = []"
| "direct_text (Raises e # ps) = []"
| "direct_text (Returns t # ps) = layer_text t @ direct_text ps"

fun ocr_text :: "image list \<Rightarrow> ustring" where
  "ocr_text [] = []"
| "ocr_text (Raises e # imgs) = []"
| "ocr_text (Returns t # imgs) = t @ [10] @ ocr_text imgs"

text \<open>
  Of a file: the exception that ends each stage when that stage is run (\<open>None\<close> when
  it would run to its end) and the text the stage gathers before that.
\<close>

definition direct_failure :: "pdf_file \<Rightarrow> ustring option" where
  "direct_failure pdf = (case pdf_pages pdf of Raises e \<Rightarrow> Some e | Returns ps \<Rightarrow> failure ps)"

definition direct_yield :: "pdf_file \<Rightarrow> ustring" where
  "direct_yield pdf = (case pdf_pages pdf of Raises e \<Rightarrow> [] | Returns ps \<Rightarrow> direct_text ps)"

definition ocr_failure :: "pdf_file \<Rightarrow> ustring option" where
  "ocr_failure pdf = (case pdf_images pdf of Raises e \<Rightarrow> Some e | Returns imgs \<Rightarrow> failure imgs)"

definition ocr_yield :: "pdf_file \<Rightarrow> ustring" where
  "ocr_yield pdf = (case pdf_images pdf of Raises e \<Rightarrow> [] | Returns imgs \<Rightarrow> ocr_text imgs)"

text \<open>The events of the OCR stage: rendering the pages and recognising an image.\<close>

fun ocr_event :: "event \<Rightarrow> bool" where
  "ocr_event ConvertFromPath = True"
| "ocr_event (ImageToString i) = True"
| "ocr_event ev = False"

section \<open>Example inputs\<close>

text \<open>
  An excerpt of the case table of Unicode: the Kelvin sign becomes \<open>k\<close>, the capital
  I with dot above becomes \<open>i\<close> and a combining dot, the capital letters of Latin-1
  move to their small forms, and every other character stays.
\<close>

definition sample_case_table :: case_table where
  "sample_case_table s i =
     (let c = s ! i in
      if c = 0x212A then [107]
      else if c = 0x130 then [105, 0x307]
      else if 0xC0 \<le> c \<and> c \<le> 0xDE \<and> c \<noteq> 0xD7 then [c + 32]
      else [c])"

text \<open>A quota message in which the \<open>K\<close> of \<open>Key\<close> is the Kelvin sign.\<close>

definition kelvin_message :: ustring where
  "kelvin_message = u ''429 quota exceeded: API '' @ [0x212A] @ u ''ey not valid''"

text \<open>
  A client whose listing call raises and whose generation call raises with the given
  message, and a client that lists one generating model and answers with the given text.
\<close>

definition failing_api :: "ustring \<Rightarrow> remote" where
  "failing_api e =
     \<lparr>list_models = ListingRaises (u ''listing unavailable''),
      GenerativeModel = (\<lambda>name. Returns ()),
      generate_content = (\<lambda>name prompt. Raises e)\<rparr>"

definition answering_api :: "ustring \<Rightarrow> remote" where
  "answering_api t =
     \<lparr>list_models =
        Listed [DictEntry (Some (u ''models/gemini-pro'')) [(''supportedMethods'', [u ''generateContent''])]]
          None,
      GenerativeModel = (\<lambda>name. Returns ()),
      generate_content =
        (\<lambda>name prompt. Returns \<lparr>resp_str = Returns (u ''response''), resp_text = TextIs (Some t)\<rparr>)\<rparr>"

text \<open>
  An entry as the generative-language client yields it, an object with the attributes
  \<open>name\<close> and \<open>supported_generation_methods\<close>; and the same entry with its list
  under the attribute name that the selector reads.
\<close>

definition sdk_model :: entry where
  "sdk_model =
     ObjEntry (Some (u ''models/gemini-pro''))
       [(''supported_generation_methods'', [u ''generateContent'', u ''countTokens''])]"

definition renamed_model :: entry where
  "renamed_model =
     ObjEntry (Some (u ''models/gemini-pro''))
       [(''supportedMethods'', [u ''generateContent'', u ''countTokens''])]"

text \<open>
  Files: one with a text layer, whose last page ends in a no-break space; a scan whose
  pages are all recognised; a scan whose first image makes the recogniser raise; a file
  whose second page raises after the first gave text, and that cannot be rendered; and
  a file that gives nothing but a no-break space and a form feed, each stage failing on
  the way.
\<close>

definition text_pdf :: pdf_file where
  "text_pdf =
     \<lparr>pdf_pages =
        Returns (map Returns [Some (u ''Jane Doe'' @ [10]), None, Some (u ''Python, AWS'' @ [0xA0])]),
      pdf_images = Raises (u ''poppler is not installed'')\<rparr>"

definition scanned_pdf :: pdf_file where
  "scanned_pdf =
     \<lparr>pdf_pages = Returns (map Returns [None, Some []]),
      pdf_images = Returns (map Returns [u ''Jane Doe'', u ''Python, AWS'' @ [0x3000, 12]])\<rparr>"

definition half_scanned_pdf :: pdf_file where
  "half_scanned_pdf =
     \<lparr>pdf_pages = Returns [Returns None, Returns None],
      pdf_images = Returns [Raises (u ''tesseract failed''), Returns (u ''Python, AWS'')]\<rparr>"

definition damaged_pdf :: pdf_file where
  "damaged_pdf =
     \<lparr>pdf_pages =
        Returns [Returns (Some (u ''Jane Doe'' @ [0xA0])), Raises (u ''page 2 is damaged'')],
      pdf_images = Raises (u ''poppler is not installed'')\<rparr>"

definition blank_pdf :: pdf_file where
  "blank_pdf =
     \<lparr>pdf_pages = Returns [Returns (Some [0xA0]), Raises (u ''page 2 is damaged'')],
      pdf_images = Returns [Returns [12], Raises (u ''tesseract failed'')]\<rparr>"

section \<open>Facts about text\<close>

lemmas text_defs = u_def lower_def ascii_lower_def symbol_def is_space_def strip_def

lemmas ex_defs = text_pdf_def scanned_pdf_def half_scanned_pdf_def damaged_pdf_def blank_pdf_def
  extract_text_from_pdf_def ocr_fallback_def direct_failure_def direct_yield_def ocr_failure_def
  ocr_yield_def text_defs

lemma str_in_iff: "str_in sub s \<longleftrightarrow> (\<exists>a b. s = a @ sub @ b)"
proof (induction s)
  case Nil
  then show ?case by simp
next
  case (Cons c s)
  show ?case
  proof
    assume "str_in sub (c # s)"
    then consider "prefix sub (c # s)" | "str_in sub s" by auto
    then show "\<exists>a b. c # s = a @ sub @ b"
    proof cases
      case 1
      then obtain b where "c # s = sub @ b" by (auto simp: prefix_def)
      then have "c # s = [] @ sub @ b" by simp
      then show ?thesis by blast
    next
      case 2
      with Cons.IH obtain a b where "s = a @ sub @ b" by blast
      then have "c # s = (c # a) @ sub @ b" by simp
      then show ?thesis by blast
    qed
  next
    assume "\<exists>a b. c # s = a @ sub @ b"
    then obtain a b where ab: "c # s = a @ sub @ b" by blast
    show "str_in sub (c # s)"
    proof (cases a)
      case Nil
      with ab have "prefix sub (c # s)" by (simp add: prefix_def)
      then show ?thesis by simp
    next
      case (Cons x a')
      with ab have "s = a' @ sub @ b" by simp
      with Cons.IH have "str_in sub s" by blast
      then show ?thesis by simp
    qed
  qed
qed

lemma lower_from_append:
  "lower_from tbl s i (a @ b) = lower_from tbl s i a @ lower_from tbl s (i + length a) b"
  by (induction a arbitrary: i) simp_all

lemma lower_from_ascii:
  "\<forall>c\<in>set p. c < 128 \<Longrightarrow> lower_from tbl s i p = map ascii_lower p"
  by (induction p arbitrary: i) simp_all

lemma str_in_lower_ascii:
  assumes "str_in p s" and "\<forall>c\<in>set p. c < 128"
  shows "str_in (map ascii_lower p) (lower tbl s)"
proof -
  obtain a b where s: "s = a @ p @ b" using assms(1) str_in_iff by blast
  have "lower tbl s = lower_from tbl s 0 (a @ p @ b)"
    using s by (simp add: lower_def)
  also have "\<dots> = lower_from tbl s 0 a @ map ascii_lower p
        @ lower_from tbl s (length a + length p) b"
    using assms(2) by (simp add: lower_from_append lower_from_ascii)
  finally show ?thesis unfolding str_in_iff by blast
qed

text \<open>
  Lower-casing is not the ASCII one: with the Kelvin sign in it, a quota message reaches
  the first branch of the classification.
\<close>

lemma kelvin_sign_reaches_first_branch:
  "str_in (u ''quota'') kelvin_message \<and> str_in (u ''429'') kelvin_message
   \<and> \<not> str_in (u ''api key not valid'') (map ascii_lower kelvin_message)
   \<and> classify sample_case_table kelvin_message = invalid_key_details"
  by (simp add: kelvin_message_def classify_def sample_case_table_def text_defs)

lemma join_nl_line: "l \<in> set ls \<Longrightarrow> \<exists>a b. join_nl ls = a @ l @ b"
proof (induction ls rule: join_nl.induct)
  case 1
  then show ?case by simp
next
  case (2 l0)
  then have "join_nl [l0] = [] @ l @ []" by simp
  then show ?case by blast
next
  case (3 l0 l1 ls)
  show ?case
  proof (cases "l = l0")
    case True
    then have "join_nl (l0 # l1 # ls) = [] @ l @ ([10] @ join_nl (l1 # ls))" by simp
    then show ?thesis by blast
  next
    case False
    with 3 obtain a b where "join_nl (l1 # ls) = a @ l @ b" by auto
    then have "join_nl (l0 # l1 # ls) = (l0 @ [10] @ a) @ l @ b" by simp
    then show ?thesis by blast
  qed
qed

lemma str_in_join_nl:
  assumes "l \<in> set ls" and "str_in p l"
  shows "str_in p (join_nl ls)"
proof -
  obtain a b where j: "join_nl ls = a @ l @ b" using assms(1) join_nl_line by blast
  obtain c d where l: "l = c @ p @ d" using assms(2) str_in_iff by blast
  have "join_nl ls = (a @ c) @ p @ (d @ b)" unfolding j l by simp
  then show ?thesis unfolding str_in_iff by blast
qed

lemma join_nl_head: "\<exists>r. join_nl ((c # d) # ds) = c # r"
  by (cases ds) simp_all

lemma strip_blank_iff: "strip s = [] \<longleftrightarrow> (\<forall>c\<in>set s. is_space c)"
proof -
  have "strip s = [] \<longleftrightarrow> (\<forall>c\<in>set (dropWhile is_space s). is_space c)"
    by (simp add: strip_def dropWhile_eq_Nil_conv)
  also have "\<dots> \<longleftrightarrow> dropWhile is_space s = []"
  proof
    assume a: "\<forall>c\<in>set (dropWhile is_space s). is_space c"
    show "dropWhile is_space s = []"
    proof (rule ccontr)
      assume n: "dropWhile is_space s \<noteq> []"
      then have "\<not> is_space (hd (dropWhile is_space s))" by (rule hd_dropWhile)
      moreover have "hd (dropWhile is_space s) \<in> set (dropWhile is_space s)" using n by simp
      ultimately show False using a by blast
    qed
  next
    assume e: "dropWhile is_space s = []"
    show "\<forall>c\<in>set (dropWhile is_space s). is_space c" unfolding e by simp
  qed
  also have "\<dots> \<longleftrightarrow> (\<forall>c\<in>set s. is_space c)"
    by (simp add: dropWhile_eq_Nil_conv)
  finally show ?thesis .
qed

lemma strip_snoc_space:
  assumes "is_space c"
  shows "strip (s @ [c]) = strip s"
proof (cases "\<forall>x\<in>set s. is_space x")
  case True
  then have "strip s = []" by (simp add: strip_blank_iff)
  moreover have "strip (s @ [c]) = []" using True assms by (simp add: strip_blank_iff)
  ultimately show ?thesis by simp
next
  case False
  then have "dropWhile is_space (s @ [c]) = dropWhile is_space s @ [c]"
    by (auto simp: dropWhile_append)
  then show ?thesis using assms by (simp add: strip_def)
qed

lemma is_space_newline: "is_space 10"
  by (simp add: is_space_def)

lemma concat_nl_join:
  "outs \<noteq> [] \<Longrightarrow> concat (map (\<lambda>t. t @ [10]) outs) = join_nl outs @ [10]"
  by (induction outs rule: join_nl.induct) simp_all

lemma strip_concat_nl: "strip (concat (map (\<lambda>t. t @ [10]) outs)) = strip (join_nl outs)"
proof (cases outs)
  case Nil
  then show ?thesis by simp
next
  case (Cons t ts)
  then have "concat (map (\<lambda>t. t @ [10]) outs) = join_nl outs @ [10]"
    using concat_nl_join [of outs] by simp
  then show ?thesis by (simp only: strip_snoc_space [OF is_space_newline])
qed

section \<open>Model selection: properties\<close>

lemma scan_models_truthy: "scan_models tbl ms = Some n \<Longrightarrow> n \<noteq> []"
  by (induction ms) (auto split: if_splits)

lemma select_default_truthy:
  "\<exists>n. select_supported_model tbl None models = Some n \<and> n \<noteq> []"
proof (cases "listed_match tbl models")
  case None
  then show ?thesis by (simp add: select_supported_model_def PREFERRED_MODELS_def u_def)
next
  case (Some n)
  then have "n \<noteq> []" by (cases models) (auto dest: scan_models_truthy)
  with Some show ?thesis by (simp add: select_supported_model_def)
qed

text \<open>
  C2. A listing with one entry as the client yields it, named \<open>models/gemini-pro\<close> and
  carrying \<open>generateContent\<close> among its capability strings, which contains
  \<open>generate\<close>: \<open>select_supported_model\<close> does not return that name but the first
  entry of \<open>PREFERRED_MODELS\<close>, because it reads \<open>supportedMethods\<close> and
  \<open>methods\<close>, and the entry keeps its list under \<open>supported_generation_methods\<close>.
  The same entry with the list under \<open>supportedMethods\<close> is selected, and when the
  listing call raises the first entry of \<open>PREFERRED_MODELS\<close> is returned.
\<close>

theorem sdk_listing_falls_back:
  "entry_name sdk_model = Some (u ''models/gemini-pro'')
   \<and> u ''generateContent'' \<in> set (capabilities sdk_model)
   \<and> str_in (u ''generate'') (lower tbl (u ''generateContent''))
   \<and> select_supported_model tbl None (Listed [sdk_model] None) = Some (u ''gemini-2.5-pro'')
   \<and> select_supported_model tbl None (Listed [renamed_model] None) = Some (u ''models/gemini-pro'')
   \<and> select_supported_model tbl None (ListingRaises e) = Some (PREFERRED_MODELS ! 0)"
  by (simp add: sdk_model_def renamed_model_def capabilities_def select_supported_model_def
      PREFERRED_MODELS_def get_list_def or_methods_def text_defs)

section \<open>Text extraction: properties\<close>

lemma direct_pages_eq:
  "direct_pages ps acc tr = (failure ps, acc @ direct_text ps, tr @ map ExtractText (attempted ps))"
proof (induction ps acc tr rule: direct_pages.induct)
  case (3 page_text ps acc tr)
  then show ?case by (cases page_text) auto
qed simp_all

lemma ocr_images_eq:
  "ocr_images imgs acc tr = (failure imgs, acc @ ocr_text imgs, tr @ map ImageToString (attempted imgs))"
  by (induction imgs acc tr rule: ocr_images.induct) simp_all

lemma failure_Returns: "failure (map Returns xs) = None"
  by (induction xs) simp_all

lemma attempted_Returns: "attempted (map Returns xs) = map Returns xs"
  by (induction xs) simp_all

lemma direct_text_Returns: "direct_text (map Returns layers) = concat (map layer_text layers)"
  by (induction layers) simp_all

lemma ocr_text_Returns: "ocr_text (map Returns outs) = concat (map (\<lambda>t. t @ [10]) outs)"
  by (induction outs) simp_all

lemma ocr_fallback_eq:
  "ocr_fallback pdf text tr =
     (strip (text @ ocr_yield pdf),
      tr @ [Print (u ''Falling back to OCR for image-based PDF.''), ConvertFromPath]
         @ (case pdf_images pdf of Raises e \<Rightarrow> [] | Returns imgs \<Rightarrow> map ImageToString (attempted imgs))
         @ (case ocr_failure pdf of None \<Rightarrow> [] | Some e \<Rightarrow> [Print (u ''OCR failed: '' @ e)]))"
  by (simp add: ocr_fallback_def ocr_yield_def ocr_failure_def ocr_images_eq Let_def
      split: outcome.splits option.splits)

lemma extract_text_value:
  "fst (extract_text_from_pdf pdf) =
     (if direct_failure pdf = None \<and> strip (direct_yield pdf) \<noteq> []
      then strip (direct_yield pdf)
      else strip (direct_yield pdf @ ocr_yield pdf))"
  by (auto simp: extract_text_from_pdf_def direct_failure_def direct_yield_def direct_pages_eq
      ocr_fallback_eq split: outcome.splits option.splits)

lemma filter_ocr_extract: "filter ocr_event (map ExtractText ps) = []"
  by (induction ps) simp_all

lemma filter_ocr_image: "filter ocr_event (map ImageToString imgs) = map ImageToString imgs"
  by (induction imgs) simp_all

text \<open>
  C4. When the file opens, every page returns its text layer, and the concatenation of
  the layers is not blank, \<open>extract_text_from_pdf\<close> returns exactly that concatenation
  stripped; it opens the file and reads each page once, and neither renders the pages
  nor runs the recogniser.
\<close>

theorem text_layer_fast_path:
  assumes "pdf_pages pdf = Returns (map Returns layers)"
    and "strip (concat (map layer_text layers)) \<noteq> []"
  shows "extract_text_from_pdf pdf
           = (strip (concat (map layer_text layers)), OpenPdf # map ExtractText (map Returns layers))
    \<and> filter ocr_event (snd (extract_text_from_pdf pdf)) = []"
proof -
  have "extract_text_from_pdf pdf
           = (strip (concat (map layer_text layers)), OpenPdf # map ExtractText (map Returns layers))"
    using assms
    by (simp add: extract_text_from_pdf_def direct_pages_eq failure_Returns attempted_Returns
        direct_text_Returns)
  then show ?thesis by (simp add: filter_ocr_extract)
qed

theorem text_layer_fast_path_witness:
  "pdf_pages text_pdf
     = Returns (map Returns [Some (u ''Jane Doe'' @ [10]), None, Some (u ''Python, AWS'' @ [0xA0])])
   \<and> strip (concat (map layer_text [Some (u ''Jane Doe'' @ [10]), None, Some (u ''Python, AWS'' @ [0xA0])]))
       \<noteq> []
   \<and> fst (extract_text_from_pdf text_pdf) = u ''Jane Doe'' @ [10] @ u ''Python, AWS''
   \<and> filter ocr_event (snd (extract_text_from_pdf text_pdf)) = []"
proof -
  have p: "pdf_pages text_pdf
     = Returns (map Returns [Some (u ''Jane Doe'' @ [10]), None, Some (u ''Python, AWS'' @ [0xA0])])"
    by (simp add: text_pdf_def)
  have s: "strip (concat (map layer_text [Some (u ''Jane Doe'' @ [10]), None, Some (u ''Python, AWS'' @ [0xA0])]))
      = u ''Jane Doe'' @ [10] @ u ''Python, AWS''"
    by (simp add: text_defs)
  then have n: "strip (concat (map layer_text [Some (u ''Jane Doe'' @ [10]), None, Some (u ''Python, AWS'' @ [0xA0])]))
      \<noteq> []"
    by (simp add: u_def)
  from text_layer_fast_path [OF p n] p n s show ?thesis by simp
qed

text \<open>
  C5. When the file opens, every page returns an empty text layer or none, the pages
  are rendered, and the recogniser returns on every image, \<open>extract_text_from_pdf\<close>
  runs the recogniser on every image, in order, and returns the outputs joined by
  line feeds, stripped.
\<close>

theorem scanned_pdf_ocr_every_page:
  assumes "pdf_pages pdf = Returns (map Returns layers)"
    and "concat (map layer_text layers) = []"
    and "pdf_images pdf = Returns (map Returns outputs)"
  shows "fst (extract_text_from_pdf pdf) = strip (join_nl outputs)
    \<and> filter ocr_event (snd (extract_text_from_pdf pdf))
        = ConvertFromPath # map ImageToString (map Returns outputs)"
proof -
  have b: "strip [] = []" by (simp add: strip_def)
  have dt: "direct_text (map Returns layers) = []"
    using assms(2) by (simp only: direct_text_Returns)
  have "extract_text_from_pdf pdf
      = (strip (concat (map (\<lambda>t. t @ [10]) outputs)),
         (OpenPdf # map ExtractText (map Returns layers))
         @ [Print (u ''Falling back to OCR for image-based PDF.''), ConvertFromPath]
         @ map ImageToString (map Returns outputs))"
    using assms(1,3)
    by (simp add: extract_text_from_pdf_def direct_pages_eq failure_Returns attempted_Returns
        dt ocr_fallback_eq ocr_yield_def ocr_failure_def ocr_text_Returns b)
  then show ?thesis
    by (simp add: strip_concat_nl filter_ocr_extract filter_ocr_image del: map_map)
qed

theorem scanned_pdf_ocr_every_page_witness:
  "pdf_pages scanned_pdf = Returns (map Returns [None, Some []])
   \<and> concat (map layer_text [None, Some []]) = []
   \<and> pdf_images scanned_pdf = Returns (map Returns [u ''Jane Doe'', u ''Python, AWS'' @ [0x3000, 12]])
   \<and> fst (extract_text_from_pdf scanned_pdf) = u ''Jane Doe'' @ [10] @ u ''Python, AWS''
   \<and> filter ocr_event (snd (extract_text_from_pdf scanned_pdf))
        = [ConvertFromPath, ImageToString (Returns (u ''Jane Doe'')),
           ImageToString (Returns (u ''Python, AWS'' @ [0x3000, 12]))]"
proof -
  have p: "pdf_pages scanned_pdf = Returns (map Returns [None, Some []])"
    by (simp add: scanned_pdf_def)
  have c: "concat (map layer_text [None, Some []]) = []" by simp
  have i: "pdf_images scanned_pdf = Returns (map Returns [u ''Jane Doe'', u ''Python, AWS'' @ [0x3000, 12]])"
    by (simp add: scanned_pdf_def)
  have s: "strip (join_nl [u ''Jane Doe'', u ''Python, AWS'' @ [0x3000, 12]])
      = u ''Jane Doe'' @ [10] @ u ''Python, AWS''"
    by (simp add: text_defs)
  from scanned_pdf_ocr_every_page [OF p c i] p c i s show ?thesis by simp
qed

text \<open>
  The condition of C5 on the recogniser is needed: when it raises on an image, the
  images after that one are not recognised.
\<close>

theorem ocr_stops_at_failure_counterexample:
  "pdf_pages half_scanned_pdf = Returns (map Returns [None, None])
   \<and> pdf_images half_scanned_pdf
       = Returns [Raises (u ''tesseract failed''), Returns (u ''Python, AWS'')]
   \<and> filter ocr_event (snd (extract_text_from_pdf half_scanned_pdf))
        = [ConvertFromPath, ImageToString (Raises (u ''tesseract failed''))]
   \<and> fst (extract_text_from_pdf half_scanned_pdf) = []"
  by (simp add: ex_defs)

text \<open>
  C6. When the text gathered by direct extraction and the text gathered by OCR are both
  blank, whether each stage runs to its end or fails on the way,
  \<open>extract_text_from_pdf\<close> returns the empty string; it returns a string on every
  input.
\<close>

theorem no_text_gives_empty_string:
  assumes "strip (direct_yield pdf) = []" and "strip (ocr_yield pdf) = []"
  shows "fst (extract_text_from_pdf pdf) = []"
proof -
  have "strip (direct_yield pdf @ ocr_yield pdf) = []"
    using assms by (auto simp: strip_blank_iff)
  with assms show ?thesis by (simp add: extract_text_value)
qed

theorem no_text_gives_empty_string_witness:
  "strip (direct_yield blank_pdf) = [] \<and> strip (ocr_yield blank_pdf) = []
   \<and> direct_yield blank_pdf = [0xA0]
   \<and> direct_failure blank_pdf = Some (u ''page 2 is damaged'')
   \<and> ocr_failure blank_pdf = Some (u ''tesseract failed'')
   \<and> fst (extract_text_from_pdf blank_pdf) = []"
proof -
  have d: "strip (direct_yield blank_pdf) = []" by (simp add: ex_defs)
  have oc: "strip (ocr_yield blank_pdf) = []" by (simp add: ex_defs)
  have y: "direct_yield blank_pdf = [0xA0]" by (simp add: ex_defs)
  have f: "direct_failure blank_pdf = Some (u ''page 2 is damaged'')" by (simp add: ex_defs)
  have g: "ocr_failure blank_pdf = Some (u ''tesseract failed'')" by (simp add: ex_defs)
  from no_text_gives_empty_string [OF d oc] d oc y f g show ?thesis by simp
qed

text \<open>
  That both stages fail is not enough for C6: a stage that fails keeps the text it
  gathered before, and that text is returned.
\<close>

theorem both_fail_counterexample:
  "direct_failure damaged_pdf = Some (u ''page 2 is damaged'')
   \<and> ocr_failure damaged_pdf = Some (u ''poppler is not installed'')
   \<and> fst (extract_text_from_pdf damaged_pdf) = u ''Jane Doe''"
  by (simp add: ex_defs)

text \<open>
  C9. A failure of direct extraction is caught: its message is printed, the OCR stage
  is still run, and the result is the text gathered before the failure followed by the
  text of the OCR stage, stripped. A failure of the OCR stage, when that stage is run,
  is caught as well: its message is printed and the result is the text gathered by both
  stages up to the failure, stripped.
\<close>

theorem stage_failure_keeps_text:
  "(direct_failure pdf = Some e \<longrightarrow>
      fst (extract_text_from_pdf pdf) = strip (direct_yield pdf @ ocr_yield pdf)
      \<and> Print (u ''Direct text extraction failed: '' @ e) \<in> set (snd (extract_text_from_pdf pdf))
      \<and> ConvertFromPath \<in> set (snd (extract_text_from_pdf pdf)))
   \<and> (ConvertFromPath \<in> set (snd (extract_text_from_pdf pdf)) \<and> ocr_failure pdf = Some e' \<longrightarrow>
      fst (extract_text_from_pdf pdf) = strip (direct_yield pdf @ ocr_yield pdf)
      \<and> Print (u ''OCR failed: '' @ e') \<in> set (snd (extract_text_from_pdf pdf)))"
proof (intro conjI impI)
  assume d: "direct_failure pdf = Some e"
  then show "fst (extract_text_from_pdf pdf) = strip (direct_yield pdf @ ocr_yield pdf)"
    by (simp add: extract_text_value)
  from d show "Print (u ''Direct text extraction failed: '' @ e) \<in> set (snd (extract_text_from_pdf pdf))"
    by (auto simp: extract_text_from_pdf_def direct_failure_def direct_pages_eq ocr_fallback_eq
        split: outcome.splits)
  from d show "ConvertFromPath \<in> set (snd (extract_text_from_pdf pdf))"
    by (auto simp: extract_text_from_pdf_def direct_failure_def direct_pages_eq ocr_fallback_eq
        split: outcome.splits)
next
  assume a: "ConvertFromPath \<in> set (snd (extract_text_from_pdf pdf)) \<and> ocr_failure pdf = Some e'"
  have fast: "direct_failure pdf = None \<and> strip (direct_yield pdf) \<noteq> []
      \<Longrightarrow> ConvertFromPath \<notin> set (snd (extract_text_from_pdf pdf))"
    by (auto simp: extract_text_from_pdf_def direct_failure_def direct_yield_def direct_pages_eq
        split: outcome.splits)
  with a have slow: "\<not> (direct_failure pdf = None \<and> strip (direct_yield pdf) \<noteq> [])" by blast
  have "fst (extract_text_from_pdf pdf) =
     (if direct_failure pdf = None \<and> strip (direct_yield pdf) \<noteq> []
      then strip (direct_yield pdf)
      else strip (direct_yield pdf @ ocr_yield pdf))"
    by (rule extract_text_value)
  also have "\<dots> = strip (direct_yield pdf @ ocr_yield pdf)"
    using slow by (rule if_not_P)
  finally show "fst (extract_text_from_pdf pdf) = strip (direct_yield pdf @ ocr_yield pdf)" .
  from slow a show "Print (u ''OCR failed: '' @ e') \<in> set (snd (extract_text_from_pdf pdf))"
    by (auto simp: extract_text_from_pdf_def direct_failure_def direct_yield_def direct_pages_eq
        ocr_fallback_eq split: outcome.splits option.splits)
qed

theorem stage_failure_keeps_text_witness:
  "direct_failure damaged_pdf = Some (u ''page 2 is damaged'')
   \<and> ocr_failure damaged_pdf = Some (u ''poppler is not installed'')
   \<and> direct_yield damaged_pdf = u ''Jane Doe'' @ [0xA0]
   \<and> extract_text_from_pdf damaged_pdf
       = (u ''Jane Doe'',
          [OpenPdf, ExtractText (Returns (Some (u ''Jane Doe'' @ [0xA0]))),
           ExtractText (Raises (u ''page 2 is damaged'')),
           Print (u ''Direct text extraction failed: page 2 is damaged''),
           Print (u ''Falling back to OCR for image-based PDF.''), ConvertFromPath,
           Print (u ''OCR failed: poppler is not installed'')])"
proof -
  have d: "direct_failure damaged_pdf = Some (u ''page 2 is damaged'')" by (simp add: ex_defs)
  have oc: "ocr_failure damaged_pdf = Some (u ''poppler is not installed'')" by (simp add: ex_defs)
  have y: "direct_yield damaged_pdf = u ''Jane Doe'' @ [0xA0]" by (simp add: ex_defs)
  have r: "extract_text_from_pdf damaged_pdf
       = (u ''Jane Doe'',
          [OpenPdf, ExtractText (Returns (Some (u ''Jane Doe'' @ [0xA0]))),
           ExtractText (Raises (u ''page 2 is damaged'')),
           Print (u ''Direct text extraction failed: page 2 is damaged''),
           Print (u ''Falling back to OCR for image-based PDF.''), ConvertFromPath,
           Print (u ''OCR failed: poppler is not installed'')])"
    by (simp add: ex_defs)
  from stage_failure_keeps_text
         [of damaged_pdf "u ''page 2 is damaged''" "u ''poppler is not installed''"]
    d oc y r show ?thesis by simp
qed

section \<open>Analysis: properties\<close>

lemma classify_head: "\<exists>d ds. classify tbl e = (0x274C # d) # ds"
  by (simp add: classify_def Let_def invalid_key_details_def permission_details_def
      quota_details_def billing_details_def cross_mark_def)

lemma add_checklist_head: "\<exists>ds'. add_checklist tbl (d # ds) = d # ds'"
  by simp

lemma diagnostic_head: "\<exists>r. diagnostic tbl e = 0x274C # r"
proof -
  obtain d ds where "classify tbl e = (0x274C # d) # ds" using classify_head by blast
  moreover obtain ds' where "add_checklist tbl ((0x274C # d) # ds) = (0x274C # d) # ds'"
    using add_checklist_head by blast
  ultimately show ?thesis using join_nl_head by (simp add: diagnostic_def)
qed

lemma diagnostic_not_no_model: "diagnostic tbl e \<noteq> no_model_message"
  using diagnostic_head [of tbl e] by (auto simp: no_model_message_def u_def)

lemma analysis_of_not_runtime_error: "analysis_of r \<noteq> RaisesRuntimeError m"
  by (simp add: analysis_of_def split: outcome.splits text_attr.splits option.splits)

lemma analyze_resume_prompt:
  "GenerateContent n p \<in> set (snd (analyze_resume tbl api resume_text job_description))
   \<Longrightarrow> p = build_prompt resume_text job_description"
  by (auto simp: analyze_resume_def Let_def split: if_splits outcome.splits)

lemma analyze_resume_failure:
  assumes "resume_text \<noteq> []"
    and "select_supported_model tbl None (list_models api) = Some name"
    and "GenerativeModel api name = Returns ()"
    and "generate_content api name (build_prompt resume_text job_description) = Raises e"
  shows "fst (analyze_resume tbl api resume_text job_description) = RaisesRuntimeError (diagnostic tbl e)"
proof -
  have "name \<noteq> []" using select_default_truthy [of tbl "list_models api"] assms(2) by simp
  then show ?thesis using assms by (simp add: analyze_resume_def Let_def)
qed

lemma failing_api_select:
  "select_supported_model tbl None (list_models (failing_api e)) = Some (u ''gemini-2.5-pro'')"
  by (simp add: failing_api_def select_supported_model_def PREFERRED_MODELS_def)

lemma failing_api_diagnostic:
  "resume_text \<noteq> [] \<Longrightarrow>
   fst (analyze_resume tbl (failing_api e) resume_text job_description)
     = RaisesRuntimeError (diagnostic tbl e)"
  by (rule analyze_resume_failure [OF _ failing_api_select]) (simp_all add: failing_api_def)

lemma quota_no_checklist: "add_checklist tbl quota_details = quota_details"
  by (simp add: quota_details_def cross_mark_def text_defs)

lemma permission_checklist:
  "add_checklist tbl permission_details = permission_details @ quick_fix_checklist"
  by (simp add: permission_details_def cross_mark_def text_defs)

lemma quota_details_no_checklist_header:
  "\<not> str_in (u ''Quick Fix Checklist'') (join_nl quota_details)"
  by (simp add: quota_details_def cross_mark_def arrow_def bar_chart_def wrench_def
      light_bulb_def u_def)

text \<open>
  C3. With empty resume text \<open>analyze_resume\<close> returns the error dict at once and
  makes no call into the client: no listing, no model construction, no generation.
\<close>

theorem empty_resume_rejected:
  "analyze_resume tbl api [] job_description
     = (ReturnsError (u ''Resume text is required for analysis.''), [])"
  by (simp add: analyze_resume_def)

text \<open>
  C10. Called without a preference list, \<open>select_supported_model\<close> returns a name
  that is neither \<open>None\<close> nor empty, whatever the listing does; so
  \<open>analyze_resume\<close> never raises the \<open>No suitable model found\<close> error.
\<close>

theorem default_selection_never_none:
  "select_supported_model tbl None models \<noteq> None
   \<and> truthy (select_supported_model tbl None models)
   \<and> fst (analyze_resume tbl api resume_text job_description) \<noteq> RaisesRuntimeError no_model_message"
proof -
  obtain n where n: "select_supported_model tbl None (list_models api) = Some n" "n \<noteq> []"
    using select_default_truthy by blast
  have "fst (analyze_resume tbl api resume_text job_description) \<noteq> RaisesRuntimeError no_model_message"
    using n diagnostic_not_no_model analysis_of_not_runtime_error
    by (auto simp: analyze_resume_def Let_def no_model_message_def u_def split: outcome.splits)
  moreover obtain k where "select_supported_model tbl None models = Some k" "k \<noteq> []"
    using select_default_truthy by blast
  ultimately show ?thesis by simp
qed

text \<open>
  C7. For non-empty resume text and a non-empty job description the prompt is the
  instructions, the resume block with the resume text, then the job-description block
  with the job description; both texts occur in it, the job description after the
  resume; and this is the prompt of any generation call \<open>analyze_resume\<close> makes.
\<close>

theorem prompt_holds_resume_then_job:
  assumes "resume_text \<noteq> []" and "jd \<noteq> []"
  shows "build_prompt resume_text (Some jd)
           = reviewer_instructions @ u ''    Resume:\<newline>    '' @ resume_text @ u ''\<newline>    ''
             @ comparison_request @ u ''        Job Description:\<newline>        '' @ jd
             @ comparison_closing
    \<and> str_in resume_text (build_prompt resume_text (Some jd))
    \<and> str_in jd (build_prompt resume_text (Some jd))
    \<and> (\<forall>n p. GenerateContent n p \<in> set (snd (analyze_resume tbl api resume_text (Some jd)))
          \<longrightarrow> p = build_prompt resume_text (Some jd))"
proof (intro conjI allI impI)
  show p: "build_prompt resume_text (Some jd)
           = reviewer_instructions @ u ''    Resume:\<newline>    '' @ resume_text @ u ''\<newline>    ''
             @ comparison_request @ u ''        Job Description:\<newline>        '' @ jd
             @ comparison_closing"
    using assms by (simp add: base_prompt_def job_block_def u_def)
  have "build_prompt resume_text (Some jd)
      = (reviewer_instructions @ u ''    Resume:\<newline>    '') @ resume_text @ (u ''\<newline>    ''
             @ comparison_request @ u ''        Job Description:\<newline>        '' @ jd
             @ comparison_closing)"
    unfolding p by simp
  then show "str_in resume_text (build_prompt resume_text (Some jd))"
    unfolding str_in_iff by blast
  have "build_prompt resume_text (Some jd)
      = (reviewer_instructions @ u ''    Resume:\<newline>    '' @ resume_text @ u ''\<newline>    ''
             @ comparison_request @ u ''        Job Description:\<newline>        '') @ jd
             @ comparison_closing"
    unfolding p by simp
  then show "str_in jd (build_prompt resume_text (Some jd))"
    unfolding str_in_iff by blast
next
  fix n p
  assume "GenerateContent n p \<in> set (snd (analyze_resume tbl api resume_text (Some jd)))"
  then show "p = build_prompt resume_text (Some jd)" by (rule analyze_resume_prompt)
qed

theorem prompt_holds_resume_then_job_witness:
  "u ''5 years Python, AWS, Docker'' \<noteq> []
   \<and> u ''Looking for a backend engineer with Python and cloud experience'' \<noteq> []
   \<and> build_prompt (u ''5 years Python, AWS, Docker'')
        (Some (u ''Looking for a backend engineer with Python and cloud experience''))
       = reviewer_instructions @ u ''    Resume:\<newline>    '' @ u ''5 years Python, AWS, Docker''
         @ u ''\<newline>    '' @ comparison_request @ u ''        Job Description:\<newline>        ''
         @ u ''Looking for a backend engineer with Python and cloud experience''
         @ comparison_closing
   \<and> analyze_resume sample_case_table (answering_api (u ''Strong match, add Kubernetes \<newline>''))
        (u ''5 years Python, AWS, Docker'')
        (Some (u ''Looking for a backend engineer with Python and cloud experience''))
       = (ReturnsAnalysis (u ''Strong match, add Kubernetes''),
          [ListModels, NewModel (u ''models/gemini-pro''),
           GenerateContent (u ''models/gemini-pro'')
             (build_prompt (u ''5 years Python, AWS, Docker'')
               (Some (u ''Looking for a backend engineer with Python and cloud experience'')))])"
proof -
  have r: "u ''5 years Python, AWS, Docker'' \<noteq> []" by (simp add: u_def)
  have j: "u ''Looking for a backend engineer with Python and cloud experience'' \<noteq> []"
    by (simp add: u_def)
  have s: "select_supported_model sample_case_table None (list_models (answering_api t))
             = Some (u ''models/gemini-pro'')" for t
    by (simp add: answering_api_def select_supported_model_def get_list_def or_methods_def text_defs)
  have n: "u ''models/gemini-pro'' \<noteq> []" by (simp add: u_def)
  have st: "strip (u ''Strong match, add Kubernetes \<newline>'') = u ''Strong match, add Kubernetes''"
    by (simp add: text_defs)
  have run: "analyze_resume sample_case_table (answering_api (u ''Strong match, add Kubernetes \<newline>''))
        (u ''5 years Python, AWS, Docker'')
        (Some (u ''Looking for a backend engineer with Python and cloud experience''))
       = (ReturnsAnalysis (u ''Strong match, add Kubernetes''),
          [ListModels, NewModel (u ''models/gemini-pro''),
           GenerateContent (u ''models/gemini-pro'')
             (build_prompt (u ''5 years Python, AWS, Docker'')
               (Some (u ''Looking for a backend engineer with Python and cloud experience'')))])"
    unfolding analyze_resume_def s Let_def
    using r n by (simp add: answering_api_def analysis_of_def st del: build_prompt.simps)
  from prompt_holds_resume_then_job [OF r j] r j run show ?thesis by blast
qed

text \<open>
  C1. When the resume text is non-empty, the selected model is constructed, and the
  generation call raises with a message that contains \<open>quota\<close> and \<open>429\<close> and whose
  lower-cased form contains none of the substrings tested by the two earlier branches
  (\<open>api key not valid\<close>, \<open>api_key_invalid\<close>, \<open>invalid api key\<close>,
  \<open>permission denied\<close>, \<open>403\<close>), \<open>analyze_resume\<close> raises with exactly the quota
  lines: they hold the four remedies (wait and retry, enable billing, request a quota
  increase, use a different key) and not the quick-fix checklist. This holds for every
  case table.
\<close>

theorem quota_failure_diagnostic:
  assumes "resume_text \<noteq> []"
    and "select_supported_model tbl None (list_models api) = Some name"
    and "GenerativeModel api name = Returns ()"
    and "generate_content api name (build_prompt resume_text job_description) = Raises e"
    and "str_in (u ''quota'') e" and "str_in (u ''429'') e"
    and "\<not> str_in (u ''api key not valid'') (lower tbl e)"
    and "\<not> str_in (u ''api_key_invalid'') (lower tbl e)"
    and "\<not> str_in (u ''invalid api key'') (lower tbl e)"
    and "\<not> str_in (u ''permission denied'') (lower tbl e)"
    and "\<not> str_in (u ''403'') (lower tbl e)"
  shows "fst (analyze_resume tbl api resume_text job_description)
           = RaisesRuntimeError (join_nl quota_details)
    \<and> str_in (u ''Wait and Retry'') (join_nl quota_details)
    \<and> str_in (u ''Enable Billing'') (join_nl quota_details)
    \<and> str_in (u ''Request Quota Increase'') (join_nl quota_details)
    \<and> str_in (u ''Use a Different API Key'') (join_nl quota_details)
    \<and> \<not> str_in (u ''Quick Fix Checklist'') (join_nl quota_details)"
proof (intro conjI)
  have "\<forall>c\<in>set (u ''quota''). c < 128" "map ascii_lower (u ''quota'') = u ''quota''"
    by (simp_all add: text_defs)
  with assms(5) have "str_in (u ''quota'') (lower tbl e)"
    using str_in_lower_ascii [of "u ''quota''" e tbl] by simp
  with assms(7-11) have "classify tbl e = quota_details" by (simp add: classify_def)
  then have "diagnostic tbl e = join_nl quota_details"
    by (simp add: diagnostic_def quota_no_checklist)
  with analyze_resume_failure [OF assms(1-4)]
  show "fst (analyze_resume tbl api resume_text job_description)
           = RaisesRuntimeError (join_nl quota_details)" by simp
  show "str_in (u ''Wait and Retry'') (join_nl quota_details)"
  proof (rule str_in_join_nl)
    show "u ''   **Option 1: Wait and Retry (Free Tier)**'' \<in> set quota_details"
      by (simp add: quota_details_def)
    show "str_in (u ''Wait and Retry'') (u ''   **Option 1: Wait and Retry (Free Tier)**'')"
      by (simp add: u_def)
  qed
  show "str_in (u ''Enable Billing'') (join_nl quota_details)"
  proof (rule str_in_join_nl)
    show "u ''   **Option 2: Enable Billing (Recommended)**'' \<in> set quota_details"
      by (simp add: quota_details_def)
    show "str_in (u ''Enable Billing'') (u ''   **Option 2: Enable Billing (Recommended)**'')"
      by (simp add: u_def)
  qed
  show "str_in (u ''Request Quota Increase'') (join_nl quota_details)"
  proof (rule str_in_join_nl)
    show "u ''   **Option 3: Request Quota Increase**'' \<in> set quota_details"
      by (simp add: quota_details_def)
    show "str_in (u ''Request Quota Increase'') (u ''   **Option 3: Request Quota Increase**'')"
      by (simp add: u_def)
  qed
  show "str_in (u ''Use a Different API Key'') (join_nl quota_details)"
  proof (rule str_in_join_nl)
    show "u ''   **Option 4: Use a Different API Key**'' \<in> set quota_details"
      by (simp add: quota_details_def)
    show "str_in (u ''Use a Different API Key'') (u ''   **Option 4: Use a Different API Key**'')"
      by (simp add: u_def)
  qed
  show "\<not> str_in (u ''Quick Fix Checklist'') (join_nl quota_details)"
    by (rule quota_details_no_checklist_header)
qed

theorem quota_failure_diagnostic_witness:
  "str_in (u ''quota'') (u ''429 Quota exceeded for quota metric: requests per minute'')
   \<and> str_in (u ''429'') (u ''429 Quota exceeded for quota metric: requests per minute'')
   \<and> fst (analyze_resume sample_case_table
            (failing_api (u ''429 Quota exceeded for quota metric: requests per minute''))
            (u ''5 years Python, AWS, Docker'') None)
       = RaisesRuntimeError (join_nl quota_details)
   \<and> \<not> str_in (u ''Quick Fix Checklist'') (join_nl quota_details)"
proof -
  let ?e = "u ''429 Quota exceeded for quota metric: requests per minute''"
  have r: "u ''5 years Python, AWS, Docker'' \<noteq> []" by (simp add: u_def)
  have i: "GenerativeModel (failing_api ?e) (u ''gemini-2.5-pro'') = Returns ()"
    by (simp add: failing_api_def)
  have g: "generate_content (failing_api ?e) (u ''gemini-2.5-pro'')
             (build_prompt (u ''5 years Python, AWS, Docker'') None) = Raises ?e"
    by (simp add: failing_api_def)
  have q: "str_in (u ''quota'') ?e" by (simp add: u_def)
  have t: "str_in (u ''429'') ?e" by (simp add: u_def)
  have n1: "\<not> str_in (u ''api key not valid'') (lower sample_case_table ?e)" by (simp add: text_defs)
  have n2: "\<not> str_in (u ''api_key_invalid'') (lower sample_case_table ?e)" by (simp add: text_defs)
  have n3: "\<not> str_in (u ''invalid api key'') (lower sample_case_table ?e)" by (simp add: text_defs)
  have n4: "\<not> str_in (u ''permission denied'') (lower sample_case_table ?e)" by (simp add: text_defs)
  have n5: "\<not> str_in (u ''403'') (lower sample_case_table ?e)" by (simp add: text_defs)
  from quota_failure_diagnostic [OF r failing_api_select i g q t n1 n2 n3 n4 n5] q t
  show ?thesis by blast
qed

text \<open>
  The condition of C1 on the earlier branches is needed: a quota message that also
  contains \<open>403\<close>, here inside a project number, is answered with the
  permission lines and the quick-fix checklist.
\<close>

theorem quota_message_with_403_counterexample:
  "str_in (u ''quota'') (u ''429 quota exceeded for project_number:540312'')
   \<and> str_in (u ''429'') (u ''429 quota exceeded for project_number:540312'')
   \<and> fst (analyze_resume sample_case_table
            (failing_api (u ''429 quota exceeded for project_number:540312''))
            (u ''5 years Python, AWS, Docker'') None)
       = RaisesRuntimeError (join_nl (permission_details @ quick_fix_checklist))
   \<and> join_nl (permission_details @ quick_fix_checklist) \<noteq> join_nl quota_details
   \<and> str_in (u ''Quick Fix Checklist'') (join_nl (permission_details @ quick_fix_checklist))"
proof -
  let ?e = "u ''429 quota exceeded for project_number:540312''"
  have r: "u ''5 years Python, AWS, Docker'' \<noteq> []" by (simp add: u_def)
  have q: "str_in (u ''quota'') ?e" by (simp add: u_def)
  have t: "str_in (u ''429'') ?e" by (simp add: u_def)
  have "classify sample_case_table ?e = permission_details"
    by (simp add: classify_def text_defs)
  then have d: "diagnostic sample_case_table ?e = join_nl (permission_details @ quick_fix_checklist)"
    by (simp add: diagnostic_def permission_checklist)
  have a: "fst (analyze_resume sample_case_table (failing_api ?e) (u ''5 years Python, AWS, Docker'') None)
       = RaisesRuntimeError (join_nl (permission_details @ quick_fix_checklist))"
    using failing_api_diagnostic [OF r, of sample_case_table ?e None] d by simp
  have ne: "join_nl (permission_details @ quick_fix_checklist) \<noteq> join_nl quota_details"
    by (simp add: permission_details_def quota_details_def u_def)
  have c: "str_in (u ''Quick Fix Checklist'') (join_nl (permission_details @ quick_fix_checklist))"
  proof (rule str_in_join_nl)
    show "clipboard @ u '' Quick Fix Checklist:'' \<in> set (permission_details @ quick_fix_checklist)"
      by (simp add: quick_fix_checklist_def)
    show "str_in (u ''Quick Fix Checklist'') (clipboard @ u '' Quick Fix Checklist:'')"
      by (simp add: u_def clipboard_def)
  qed
  from q t a ne c show ?thesis by blast
qed

text \<open>
  C8. A failure whose message matches no category and does not contain \<open>api key\<close>
  is surfaced verbatim after the error mark, and the quick-fix checklist is not added,
  although the comment above the test announces it for every non-quota error.
\<close>

theorem unclassified_failure_without_checklist:
  "fst (analyze_resume tbl (failing_api (u ''Connection reset by peer''))
          (u ''5 years Python, AWS, Docker'') None)
     = RaisesRuntimeError (cross_mark @ u '' Error: Connection reset by peer'')
   \<and> \<not> str_in (u ''Quick Fix Checklist'') (cross_mark @ u '' Error: Connection reset by peer'')"
proof -
  have r: "u ''5 years Python, AWS, Docker'' \<noteq> []" by (simp add: u_def)
  have d: "diagnostic tbl (u ''Connection reset by peer'')
             = cross_mark @ u '' Error: Connection reset by peer''"
    by (simp add: diagnostic_def classify_def cross_mark_def text_defs)
  have n: "\<not> str_in (u ''Quick Fix Checklist'') (cross_mark @ u '' Error: Connection reset by peer'')"
    by (simp add: cross_mark_def u_def)
  from failing_api_diagnostic [OF r, of tbl "u ''Connection reset by peer''" None]
    d n show ?thesis by simp
qed

end
